theory Spec2Isabelle
  imports Complex_Main "HOL-Library.Word"
begin

unbundle bit_operations_syntax

section \<open>The value hash of \<^verbatim>\<open>src/c/noiseval.c\<close>\<close>

text \<open>
  The repository's C file holds one function,

  \<^verbatim>\<open>double generate_random_value(int x, int y, int seed)\<close>

  A C \<^verbatim>\<open>int\<close> is a 32-bit two's-complement integer, modelled as \<^typ>\<open>32 word\<close>:
  \<open>+\<close> and \<open>*\<close> wrap around modulo \<open>2 ^ 32\<close>, \<open>push_bit\<close> is the left shift that
  drops the bits shifted out, \<open>AND\<close> and \<open>XOR\<close> work bitwise, and \<open>sint\<close> reads the
  word as the signed value the C program sees. Overflow of the signed arithmetic and of
  the shift is taken to wrap around, which is the arithmetic the specification
  prescribes for this function.

  The returned \<^verbatim>\<open>double\<close> is modelled as a \<^typ>\<open>real\<close>. The three floating-point
  operations of the return statement (conversion of an \<^verbatim>\<open>int\<close>, division by
  \<open>2 ^ 30\<close>, subtraction from \<open>1.0\<close>) all have exactly representable results
  (lemma \<open>double_steps_exact\<close> below), so no rounding takes place and the real number
  is the value of the double.
\<close>

type_synonym c_int = "32 word"

text \<open>Line 2: \<^verbatim>\<open>int n = ((x * 157) + (y * 31337) + (seed * 2633)) & 0x7fffffff;\<close>\<close>

definition mix_coords :: "c_int \<Rightarrow> c_int \<Rightarrow> c_int \<Rightarrow> c_int" where
  "mix_coords x y seed = ((x * 157) + (y * 31337) + (seed * 2633)) AND 0x7fffffff"

text \<open>Line 3: \<^verbatim>\<open>n = (n << 13) ^ n;\<close>\<close>

definition shift_xor :: "c_int \<Rightarrow> c_int" where
  "shift_xor n = (push_bit 13 n) XOR n"

text \<open>Line 4, the integer operand of the division:
  \<^verbatim>\<open>(n * (n * n * 15731 + 789221) + 1376312579) & 0x7fffffff\<close>\<close>

definition hash_term :: "c_int \<Rightarrow> c_int" where
  "hash_term n = (n * (n * n * 15731 + 789221) + 1376312579) AND 0x7fffffff"

text \<open>The whole function; the local \<^verbatim>\<open>n\<close> is assigned twice, as in the source.\<close>

definition generate_random_value :: "c_int \<Rightarrow> c_int \<Rightarrow> c_int \<Rightarrow> real" where
  "generate_random_value x y seed =
     (let n = mix_coords x y seed;
          n = shift_xor n
      in 1 - real_of_int (sint (hash_term n)) / 1073741824)"

subsection \<open>The function with the partial C operators made explicit\<close>

text \<open>
  Two operators of the body are not defined on every operand in C: a shift whose count is
  negative or not below the width of \<^verbatim>\<open>int\<close>, and a division whose divisor is zero.
  The checked variant returns \<open>None\<close> there; everything else is the wrap-around
  arithmetic of the definitions above.
\<close>

definition c_shl :: "c_int \<Rightarrow> nat \<Rightarrow> c_int option" where
  "c_shl n k = (if k < 32 then Some (push_bit k n) else None)"

definition c_fdiv :: "real \<Rightarrow> real \<Rightarrow> real option" where
  "c_fdiv a d = (if d = 0 then None else Some (a / d))"

definition generate_random_value_chk :: "c_int \<Rightarrow> c_int \<Rightarrow> c_int \<Rightarrow> real option" where
  "generate_random_value_chk x y seed =
     (let n = ((x * 157) + (y * 31337) + (seed * 2633)) AND 0x7fffffff in
      case c_shl n 13 of
        None \<Rightarrow> None
      | Some s \<Rightarrow>
          (let n = s XOR n in
           case c_fdiv (real_of_int (sint ((n * (n * n * 15731 + 789221) + 1376312579)
                          AND 0x7fffffff))) 1073741824 of
             None \<Rightarrow> None
           | Some q \<Rightarrow> Some (1 - q)))"

subsection \<open>The body as statements on the machine state\<close>

text \<open>
  The state a call can see: the byte-addressed memory outside the call's frame (globals,
  heap, other frames), the three parameters, and the slot of the local \<^verbatim>\<open>n\<close>. Each
  statement of the body is a transformer of that state, written from its source line, so
  a statement that read or wrote memory, or read \<^verbatim>\<open>n\<close> before assigning it, would
  show here.
\<close>

record machine_state =
  memory :: "nat \<Rightarrow> 8 word"
  var_x :: c_int
  var_y :: c_int
  var_seed :: c_int
  var_n :: c_int

text \<open>Line 2: \<^verbatim>\<open>int n = ((x * 157) + (y * 31337) + (seed * 2633)) & 0x7fffffff;\<close>\<close>

definition stmt_init_n :: "machine_state \<Rightarrow> machine_state" where
  "stmt_init_n s =
     s\<lparr>var_n := ((var_x s * 157) + (var_y s * 31337) + (var_seed s * 2633)) AND 0x7fffffff\<rparr>"

text \<open>Line 3: \<^verbatim>\<open>n = (n << 13) ^ n;\<close>\<close>

definition stmt_remix_n :: "machine_state \<Rightarrow> machine_state" where
  "stmt_remix_n s = s\<lparr>var_n := (push_bit 13 (var_n s)) XOR var_n s\<rparr>"

text \<open>Line 4, the returned expression:
  \<^verbatim>\<open>(1.0 - ((n * (n * n * 15731 + 789221) + 1376312579) & 0x7fffffff) / 1073741824.0)\<close>\<close>

definition expr_return :: "machine_state \<Rightarrow> real" where
  "expr_return s =
     1 - real_of_int (sint ((var_n s * (var_n s * var_n s * 15731 + 789221) + 1376312579)
           AND 0x7fffffff)) / 1073741824"

text \<open>
  A call: the frame is set up over the memory \<open>m\<close> with the arguments and with whatever
  the slot of \<^verbatim>\<open>n\<close> held before (\<open>junk\<close>); the two statements run in order; the
  call yields the returned value and the memory it leaves behind.
\<close>

definition generate_random_value_run ::
  "(nat \<Rightarrow> 8 word) \<Rightarrow> c_int \<Rightarrow> c_int \<Rightarrow> c_int \<Rightarrow> c_int \<Rightarrow> real \<times> (nat \<Rightarrow> 8 word)" where
  "generate_random_value_run m junk x y seed =
     (let s = \<lparr>memory = m, var_x = x, var_y = y, var_seed = seed, var_n = junk\<rparr>;
          s = stmt_init_n s;
          s = stmt_remix_n s
      in (expr_return s, memory s))"

subsection \<open>The algorithm as the specification words it\<close>

text \<open>
  The specification describes three steps on signed integers with every intermediate
  reduced by 32-bit two's-complement wrap-around. Here the integers are \<^typ>\<open>int\<close> and
  the wrap-around is written out; the bitwise operators are those of \<^typ>\<open>int\<close>
  (two's complement of unbounded width).
\<close>

definition wrap32 :: "int \<Rightarrow> int" where
  "wrap32 i = (i + 2147483648) mod 4294967296 - 2147483648"

definition spec_step1 :: "int \<Rightarrow> int \<Rightarrow> int \<Rightarrow> int" where
  "spec_step1 x y seed =
     wrap32 (wrap32 (wrap32 (x * 157) + wrap32 (y * 31337)) + wrap32 (seed * 2633))
       AND 0x7fffffff"

definition spec_step2 :: "int \<Rightarrow> int" where
  "spec_step2 n = wrap32 (push_bit 13 n) XOR n"

definition spec_step3 :: "int \<Rightarrow> real" where
  "spec_step3 n =
     1 - real_of_int
           (wrap32 (wrap32 (n * wrap32 (wrap32 (wrap32 (n * n) * 15731) + 789221))
              + 1376312579) AND 0x7fffffff) / 1073741824"

definition spec_generate :: "int \<Rightarrow> int \<Rightarrow> int \<Rightarrow> real" where
  "spec_generate x y seed = spec_step3 (spec_step2 (spec_step1 x y seed))"

subsection \<open>Values a binary64 double represents exactly\<close>

text \<open>
  A finite IEEE-754 binary64 number is \<open>m * 2 ^ e\<close> with an integer significand
  \<open>\<bar>m\<bar> < 2 ^ 53\<close> and an exponent \<open>- 1074 \<le> e \<le> 971\<close>.
\<close>

definition binary64_exact :: "real \<Rightarrow> bool" where
  "binary64_exact r =
     (\<exists>m e :: int. \<bar>m\<bar> < 2 ^ 53 \<and> - 1074 \<le> e \<and> e \<le> 971 \<and> r = real_of_int m * 2 powi e)"

section \<open>Auxiliary facts\<close>

lemma masked_range:
  fixes w :: c_int
  shows "0 \<le> sint (w AND 0x7fffffff)" and "sint (w AND 0x7fffffff) \<le> 2147483647"
proof -
  have eq: "sint (w AND 0x7fffffff) = sint w AND 2147483647"
    by (simp add: signed_and_eq)
  show "0 \<le> sint (w AND 0x7fffffff)"
    unfolding eq by simp
  have "sint w AND 2147483647 \<le> (2147483647 :: int)"
    by (rule AND_upper2) simp
  then show "sint (w AND 0x7fffffff) \<le> 2147483647"
    unfolding eq .
qed

subsection \<open>The masked hash term\<close>

lemma hash_term_odd: "odd (hash_term n)"
  by (simp add: hash_term_def even_and_iff)

lemma hash_term_pos: "1 \<le> sint (hash_term n)"
proof -
  have "hash_term n \<noteq> 0"
    using hash_term_odd [of n] by auto
  then have "sint (hash_term n) \<noteq> 0"
    by (simp add: signed_eq_0_iff)
  moreover have "0 \<le> sint (hash_term n)"
    unfolding hash_term_def by (rule masked_range)
  ultimately show ?thesis by linarith
qed

lemma hash_term_le: "sint (hash_term n) \<le> 2147483647"
  unfolding hash_term_def by (rule masked_range)

lemma generate_random_value_unfold:
  "generate_random_value x y seed
     = 1 - real_of_int (sint (hash_term (shift_xor (mix_coords x y seed)))) / 1073741824"
  by (simp add: generate_random_value_def)

subsection \<open>Signed reading of the word operations\<close>

lemma wrap32_signed_take_bit: "wrap32 i = signed_take_bit 31 i"
  by (simp add: wrap32_def signed_take_bit_eq_take_bit_shift take_bit_eq_mod)

lemma sint_mult32: "sint (a * b) = wrap32 (sint a * sint b)" for a b :: c_int
  by (simp add: wrap32_signed_take_bit sint_word_mult)

lemma sint_add32: "sint (a + b) = wrap32 (sint a + sint b)" for a b :: c_int
  by (simp add: wrap32_signed_take_bit sint_word_add)

lemma sint_shl32: "sint (push_bit k a) = wrap32 (push_bit k (sint a))" for a :: c_int
  by (simp add: wrap32_signed_take_bit signed_push_bit_eq)

lemma sint_and32: "sint (a AND b) = sint a AND sint b" for a b :: c_int
  by (rule signed_and_eq)

lemma sint_xor32: "sint (a XOR b) = sint a XOR sint b" for a b :: c_int
  by (rule signed_xor_eq)

lemma mix_coords_spec: "sint (mix_coords x y seed) = spec_step1 (sint x) (sint y) (sint seed)"
  by (simp add: mix_coords_def spec_step1_def sint_and32 sint_add32 sint_mult32)

lemma shift_xor_spec: "sint (shift_xor n) = spec_step2 (sint n)"
  by (simp add: shift_xor_def spec_step2_def sint_xor32 sint_shl32)

lemma hash_term_spec:
  "1 - real_of_int (sint (hash_term n)) / 1073741824 = spec_step3 (sint n)"
  by (simp add: hash_term_def spec_step3_def sint_and32 sint_add32 sint_mult32)

subsection \<open>No rounding in the return statement\<close>

lemma binary64_exactI:
  "\<bar>m\<bar> < 2 ^ 53 \<Longrightarrow> - 1074 \<le> e \<Longrightarrow> e \<le> 971 \<Longrightarrow> r = real_of_int m * 2 powi e
   \<Longrightarrow> binary64_exact r"
  unfolding binary64_exact_def by blast

lemma double_steps_exact:
  fixes n :: c_int
  defines "k \<equiv> sint (hash_term n)"
  shows "binary64_exact (real_of_int k)"
    and "binary64_exact (real_of_int k / 1073741824)"
    and "binary64_exact (1 - real_of_int k / 1073741824)"
proof -
  have k: "1 \<le> k" "k \<le> 2147483647"
    unfolding k_def by (rule hash_term_pos, rule hash_term_le)
  show "binary64_exact (real_of_int k)"
    by (rule binary64_exactI [of k 0]) (use k in simp_all)
  show "binary64_exact (real_of_int k / 1073741824)"
    by (rule binary64_exactI [of k "- 30"])
      (use k in \<open>simp_all add: power_int_minus field_simps\<close>)
  show "binary64_exact (1 - real_of_int k / 1073741824)"
    by (rule binary64_exactI [of "1073741824 - k" "- 30"])
      (use k in \<open>simp_all add: power_int_minus field_simps\<close>)
qed

subsection \<open>The set of outputs\<close>

lemma outputs_subset:
  "range (\<lambda>(x, y, seed). generate_random_value x y seed)
     \<subseteq> (\<lambda>k. 1 - real_of_int k / 2 ^ 30) ` {0 .. 2 ^ 31 - 1}"
proof
  fix r assume "r \<in> range (\<lambda>(x, y, seed). generate_random_value x y seed)"
  then obtain x y seed where r: "r = generate_random_value x y seed"
    by auto
  define k where "k = sint (hash_term (shift_xor (mix_coords x y seed)))"
  have g: "r = 1 - real_of_int k / 2 ^ 30"
    by (simp add: r generate_random_value_def k_def)
  have "1 \<le> k" "k \<le> 2147483647"
    unfolding k_def by (rule hash_term_pos, rule hash_term_le)
  then have "k \<in> {0 .. 2 ^ 31 - 1}" by simp
  then show "r \<in> (\<lambda>k. 1 - real_of_int k / 2 ^ 30) ` {0 .. 2 ^ 31 - 1}"
    using g by (rule rev_image_eqI)
qed

lemma outputs_card:
  "card (range (\<lambda>(x, y, seed). generate_random_value x y seed)) \<le> 2 ^ 31"
proof -
  let ?S = "(\<lambda>k. 1 - real_of_int k / 2 ^ 30) ` {0 .. 2 ^ 31 - 1 :: int}"
  have "card (range (\<lambda>(x, y, seed). generate_random_value x y seed)) \<le> card ?S"
    by (rule card_mono) (simp, rule outputs_subset)
  also have "\<dots> \<le> card {0 .. 2 ^ 31 - 1 :: int}"
    by (rule card_image_le) simp
  also have "\<dots> = 2 ^ 31"
    by simp
  finally show ?thesis .
qed

section \<open>The claims\<close>

text \<open>
  C1. For every triple of signed 32-bit integers the C function computes the three-step
  algorithm of the specification: the result of the source, on words, equals the
  specification's steps on integers with each intermediate wrapped to 32-bit two's
  complement, applied to the signed values of the arguments. The double is the real
  number itself, no operation of the return statement rounds (\<open>double_steps_exact\<close>).
\<close>

theorem generate_random_value_refines_spec:
  "generate_random_value x y seed = spec_generate (sint x) (sint y) (sint seed)"
  unfolding generate_random_value_def spec_generate_def Let_def
  by (simp only: hash_term_spec shift_xor_spec mix_coords_spec)

text \<open>
  C2. For every triple of arguments, large magnitudes included, the result is at least
  \<open>- 1\<close> and strictly below \<open>1\<close>. The upper bound is strict because the hash term is
  odd, hence never zero.
\<close>

theorem generate_random_value_range:
  "- 1 \<le> generate_random_value x y seed \<and> generate_random_value x y seed < 1"
proof -
  define k where "k = sint (hash_term (shift_xor (mix_coords x y seed)))"
  have g: "generate_random_value x y seed = 1 - real_of_int k / 1073741824"
    unfolding k_def by (rule generate_random_value_unfold)
  have "1 \<le> k" "k \<le> 2147483647"
    unfolding k_def by (rule hash_term_pos, rule hash_term_le)
  then have "1 \<le> real_of_int k" "real_of_int k \<le> 2147483647"
    by simp_all
  then show ?thesis unfolding g by simp
qed

text \<open>
  C3, as stated, gives the value at the origin as approximately \<open>- 0.28157\<close>. The value
  of the code is further than \<open>0.0002\<close> away from that number.
\<close>

theorem generate_random_value_origin_not_28157:
  "\<not> \<bar>generate_random_value 0 0 0 - (- 0.28157)\<bar> \<le> 0.0002"
  by (simp add: generate_random_value_def mix_coords_def shift_xor_def hash_term_def)

text \<open>
  C3, amended. At \<open>x = 0\<close>, \<open>y = 0\<close>, \<open>seed = 0\<close> line 2 yields \<open>n = 0\<close>, line 3
  yields \<open>n = 0\<close>, the masked hash term is \<open>1376312579\<close>, and the function returns
  exactly \<open>1 - 1376312579 / 1073741824\<close>, which is \<open>- 0.28179\<close> to five decimals.
\<close>

theorem generate_random_value_origin:
  "mix_coords 0 0 0 = 0 \<and> shift_xor 0 = 0 \<and> sint (hash_term 0) = 1376312579
   \<and> generate_random_value 0 0 0 = 1 - 1376312579 / 1073741824
   \<and> \<bar>generate_random_value 0 0 0 - (- 0.28179)\<bar> \<le> 0.000005"
  by (simp add: generate_random_value_def mix_coords_def shift_xor_def hash_term_def)

text \<open>
  C4. The function is total: with wrap-around arithmetic, the variant that returns
  \<open>None\<close> where a C operator is undefined (shift count out of range, zero divisor)
  returns a value on every triple of arguments, and that value is the one of
  \<open>generate_random_value\<close>.
\<close>

theorem generate_random_value_total:
  "generate_random_value_chk x y seed = Some (generate_random_value x y seed)"
  by (simp add: generate_random_value_chk_def generate_random_value_def c_shl_def c_fdiv_def
      mix_coords_def shift_xor_def hash_term_def Let_def)

text \<open>
  C5. After line 2 the accumulator is non-negative: for every \<open>x\<close>, \<open>y\<close>, \<open>seed\<close>
  the masked wrapped sum, read as a signed 32-bit integer, lies between \<open>0\<close> and
  \<open>2 ^ 31 - 1\<close>.
\<close>

theorem mix_coords_range:
  "0 \<le> sint (mix_coords x y seed) \<and> sint (mix_coords x y seed) \<le> 2 ^ 31 - 1"
  unfolding mix_coords_def using masked_range [of "x * 157 + y * 31337 + seed * 2633"]
  by simp

text \<open>
  C6. The results at \<open>(0,0,0)\<close>, \<open>(1,0,0)\<close>, \<open>(0,1,0)\<close> and \<open>(0,0,1)\<close> are pairwise
  distinct.
\<close>

theorem unit_offsets_distinct:
  "generate_random_value 1 0 0 \<noteq> generate_random_value 0 0 0
   \<and> generate_random_value 0 1 0 \<noteq> generate_random_value 0 0 0
   \<and> generate_random_value 0 0 1 \<noteq> generate_random_value 0 0 0
   \<and> generate_random_value 1 0 0 \<noteq> generate_random_value 0 1 0
   \<and> generate_random_value 1 0 0 \<noteq> generate_random_value 0 0 1
   \<and> generate_random_value 0 1 0 \<noteq> generate_random_value 0 0 1"
  by (simp add: generate_random_value_def mix_coords_def shift_xor_def hash_term_def)

text \<open>
  C7. The function is deterministic and referentially transparent: two calls with the
  same arguments return the same value whatever the memory and whatever the slot of the
  local held before, in either call; that value is the function of the three arguments
  alone; and the call leaves the memory as it found it.
\<close>

theorem generate_random_value_run_deterministic:
  "fst (generate_random_value_run m1 junk1 x y seed)
     = fst (generate_random_value_run m2 junk2 x y seed)
   \<and> fst (generate_random_value_run m1 junk1 x y seed) = generate_random_value x y seed
   \<and> snd (generate_random_value_run m1 junk1 x y seed) = m1"
  by (simp add: generate_random_value_run_def stmt_init_n_def stmt_remix_n_def
      expr_return_def generate_random_value_def mix_coords_def shift_xor_def hash_term_def
      Let_def)

text \<open>
  C8. The result depends on the arguments only through \<open>x * 157 + y * 31337 +
  seed * 2633\<close> modulo \<open>2 ^ 32\<close>: two triples whose linear combinations (of the signed
  values, as integers) are congruent modulo \<open>2 ^ 32\<close> have the same result.
\<close>

theorem generate_random_value_linear_dependence:
  assumes "(sint x1 * 157 + sint y1 * 31337 + sint seed1 * 2633) mod 2 ^ 32
         = (sint x2 * 157 + sint y2 * 31337 + sint seed2 * 2633) mod 2 ^ 32"
  shows "generate_random_value x1 y1 seed1 = generate_random_value x2 y2 seed2"
proof -
  define a where "a = sint x1 * 157 + sint y1 * 31337 + sint seed1 * 2633"
  define b where "b = sint x2 * 157 + sint y2 * 31337 + sint seed2 * 2633"
  from assms have "take_bit 32 a = take_bit 32 b"
    by (simp add: take_bit_eq_mod a_def b_def)
  then have "(word_of_int a :: c_int) = word_of_int b"
    by (simp add: word_of_int_eq_iff)
  moreover have "(word_of_int a :: c_int) = x1 * 157 + y1 * 31337 + seed1 * 2633"
    by (simp add: a_def)
  moreover have "(word_of_int b :: c_int) = x2 * 157 + y2 * 31337 + seed2 * 2633"
    by (simp add: b_def)
  ultimately have "x1 * 157 + y1 * 31337 + seed1 * 2633 = x2 * 157 + y2 * 31337 + seed2 * 2633"
    by simp
  then have "mix_coords x1 y1 seed1 = mix_coords x2 y2 seed2"
    by (simp add: mix_coords_def)
  then show ?thesis
    by (simp add: generate_random_value_def)
qed

text \<open>
  An instance where the congruence holds only through the wrap-around: seed \<open>1\<close> at
  the origin and seed \<open>0\<close> at \<open>x = - 820694371\<close>.
\<close>

theorem generate_random_value_linear_dependence_witness:
  "(sint (0 :: c_int) * 157 + sint (0 :: c_int) * 31337 + sint (1 :: c_int) * 2633) mod 2 ^ 32
     = (sint (- 820694371 :: c_int) * 157 + sint (0 :: c_int) * 31337
          + sint (0 :: c_int) * 2633) mod 2 ^ 32
   \<and> generate_random_value 0 0 1 = generate_random_value (- 820694371) 0 0"
proof -
  have h: "(sint (0 :: c_int) * 157 + sint (0 :: c_int) * 31337 + sint (1 :: c_int) * 2633)
             mod 2 ^ 32
         = (sint (- 820694371 :: c_int) * 157 + sint (0 :: c_int) * 31337
              + sint (0 :: c_int) * 2633) mod 2 ^ 32"
    by simp
  from h generate_random_value_linear_dependence [OF h] show ?thesis
    by (rule conjI)
qed

text \<open>
  C9. The lower end of the range is not attained: every result is at least
  \<open>1 - (2 ^ 31 - 1) / 2 ^ 30\<close>, which is \<open>- 1 + 2 ^ - 30\<close>, so it is strictly above
  \<open>- 1\<close> and never equal to \<open>- 1\<close>.
\<close>

theorem generate_random_value_above_minus_one:
  "1 - (2 ^ 31 - 1) / 2 ^ 30 \<le> generate_random_value x y seed
   \<and> (1 - (2 ^ 31 - 1) / 2 ^ 30 :: real) = - 1 + 1 / 2 ^ 30
   \<and> - 1 < generate_random_value x y seed
   \<and> generate_random_value x y seed \<noteq> - 1"
proof -
  define k where "k = sint (hash_term (shift_xor (mix_coords x y seed)))"
  have g: "generate_random_value x y seed = 1 - real_of_int k / 1073741824"
    unfolding k_def by (rule generate_random_value_unfold)
  have "k \<le> 2147483647"
    unfolding k_def by (rule hash_term_le)
  then have "real_of_int k \<le> 2147483647"
    by simp
  then show ?thesis unfolding g by simp
qed

text \<open>
  C10. Every result is quantized to steps of \<open>2 ^ - 30\<close>: it is \<open>1 - k / 2 ^ 30\<close> for
  an integer \<open>0 \<le> k \<le> 2 ^ 31 - 1\<close>; it is a value a binary64 double represents
  exactly; and the function has at most \<open>2 ^ 31\<close> distinct results.
\<close>

theorem generate_random_value_quantized:
  "(\<exists>k :: int. 0 \<le> k \<and> k \<le> 2 ^ 31 - 1
       \<and> generate_random_value x y seed = 1 - real_of_int k / 2 ^ 30)
   \<and> binary64_exact (generate_random_value x y seed)
   \<and> card (range (\<lambda>(x, y, seed). generate_random_value x y seed)) \<le> 2 ^ 31"
proof -
  define k where "k = sint (hash_term (shift_xor (mix_coords x y seed)))"
  have g: "generate_random_value x y seed = 1 - real_of_int k / 1073741824"
    unfolding k_def by (rule generate_random_value_unfold)
  have "1 \<le> k" "k \<le> 2147483647"
    unfolding k_def by (rule hash_term_pos, rule hash_term_le)
  then have "0 \<le> k \<and> k \<le> 2 ^ 31 - 1
      \<and> generate_random_value x y seed = 1 - real_of_int k / 2 ^ 30"
    using g by simp
  then have "\<exists>k :: int. 0 \<le> k \<and> k \<le> 2 ^ 31 - 1
      \<and> generate_random_value x y seed = 1 - real_of_int k / 2 ^ 30"
    by (rule exI)
  moreover have "binary64_exact (generate_random_value x y seed)"
    unfolding g k_def by (rule double_steps_exact(3))
  ultimately show ?thesis
    using outputs_card by simp
qed

end
